theory Spec2Isabelle
  imports Main
begin

section \<open>Table comparison tool of the Databricks server: a shallow embedding\<close>

text \<open>
  The development follows \<^verbatim>\<open>src/tools/table_compare_tool.py\<close>. Python functions keep
  their names without the leading underscore. Everything the tool does outside Python
  (running \<^verbatim>\<open>head\<close> and \<^verbatim>\<open>diff\<close>, opening and removing files, the Databricks service)
  is a field of an environment record, so that every theorem holds for whatever these
  collaborators answer, unless a hypothesis says how they behave.
\<close>

subsection \<open>Python strings: \<^verbatim>\<open>str.split\<close>, \<^verbatim>\<open>str.join\<close>, \<^verbatim>\<open>str(int)\<close>\<close>

text \<open>\<^verbatim>\<open>s.split(sep)\<close> for a one-character separator: never the empty list.\<close>

fun split_on :: "char \<Rightarrow> string \<Rightarrow> string list" where
  "split_on sep [] = [[]]"
| "split_on sep (c # cs) =
     (if c = sep then [] # split_on sep cs
      else (case split_on sep cs of [] \<Rightarrow> [[c]] | l # ls \<Rightarrow> (c # l) # ls))"

text \<open>\<^verbatim>\<open>sep.join(xs)\<close>.\<close>

fun join_with :: "string \<Rightarrow> string list \<Rightarrow> string" where
  "join_with sep [] = []"
| "join_with sep [x] = x"
| "join_with sep (x # y # ys) = x @ sep @ join_with sep (y # ys)"

definition digit_char :: "nat \<Rightarrow> char" where
  "digit_char d = ''0123456789'' ! d"

function str_nat :: "nat \<Rightarrow> string" where
  "str_nat n = (if n < 10 then [digit_char n] else str_nat (n div 10) @ [digit_char (n mod 10)])"
  by pat_completeness auto
termination
  by (relation "measure id") auto

declare str_nat.simps [simp del]

text \<open>\<^verbatim>\<open>str(i)\<close> and the \<^verbatim>\<open>{i}\<close> of an f-string, for a Python integer.\<close>

definition str_int :: "int \<Rightarrow> string" where
  "str_int i = (if i < 0 then CHR ''-'' # str_nat (nat (- i)) else str_nat (nat i))"

subsection \<open>\<^verbatim>\<open>os.path\<close> on POSIX\<close>

definition basename :: "string \<Rightarrow> string" where
  "basename p = rev (takeWhile (\<lambda>c. c \<noteq> CHR ''/'') (rev p))"

definition dirname :: "string \<Rightarrow> string" where
  "dirname p =
     (let head = rev (dropWhile (\<lambda>c. c \<noteq> CHR ''/'') (rev p)) in
      if head \<noteq> [] \<and> head \<noteq> replicate (length head) CHR ''/''
      then rev (dropWhile (\<lambda>c. c = CHR ''/'') (rev head))
      else head)"

definition path_join :: "string \<Rightarrow> string \<Rightarrow> string" where
  "path_join a b =
     (if take 1 b = ''/'' then b
      else if a = [] \<or> take 1 (rev a) = ''/'' then a @ b
      else a @ ''/'' @ b)"

subsection \<open>Constants\<close>

definition MAX_DIFF_OUTPUT_LINES :: int where
  "MAX_DIFF_OUTPUT_LINES = 10"

definition DIFF_TIMEOUT_SECONDS :: int where
  "DIFF_TIMEOUT_SECONDS = 300"

definition DIFF_SUCCESS_CODE :: int where
  "DIFF_SUCCESS_CODE = 0"

definition DIFF_DIFFERENT_CODE :: int where
  "DIFF_DIFFERENT_CODE = 1"

definition UNIFIED_DIFF_FORMAT :: string where
  "UNIFIED_DIFF_FORMAT = ''-u''"

definition INCREMENTAL_SAMPLE_SIZES :: "int list" where
  "INCREMENTAL_SAMPLE_SIZES = [5, 25, 100, 500]"

subsection \<open>Output bounding\<close>

definition truncation_msg :: "int \<Rightarrow> string" where
  "truncation_msg truncated_count =
     ''\<newline>... (truncated '' @ str_int truncated_count @ '' more lines, showing first ''
       @ str_int MAX_DIFF_OUTPUT_LINES @ '' lines)''"

definition limit_diff_output :: "string \<Rightarrow> string" where
  "limit_diff_output diff_output =
     (let lines = split_on CHR ''\<newline>'' diff_output in
      if int (length lines) \<le> MAX_DIFF_OUTPUT_LINES then diff_output
      else
        (let limited_lines = take (nat MAX_DIFF_OUTPUT_LINES) lines;
             total_lines = int (length lines);
             truncated_count = total_lines - MAX_DIFF_OUTPUT_LINES
         in join_with ''\<newline>'' (limited_lines @ [truncation_msg truncated_count])))"



subsection \<open>Processes, exceptions, the file system and the collaborators\<close>

text \<open>
  What \<^verbatim>\<open>subprocess.run(cmd, capture_output=True, text=True, timeout=...)\<close> can do:
  return a completed process (return code, stdout, stderr), raise
  \<^verbatim>\<open>TimeoutExpired\<close>, or raise \<^verbatim>\<open>OSError\<close> because the program could not be started.
\<close>

datatype proc_outcome =
    Completed int string string
  | TimedOut
  | SpawnFailed string

text \<open>The exceptions that occur; all of them are subclasses of \<^verbatim>\<open>Exception\<close>.\<close>

datatype exn =
    DatabricksServiceError string
  | TimeoutExpired
  | CalledProcessError int "string list" string
  | OSError string
  | PyException string

text \<open>
  The external actions of a call, in order: processes with their outcome, sample files
  written (\<open>Some m\<close>: \<^verbatim>\<open>open\<close> raised \<^verbatim>\<open>OSError\<close> and nothing was written) and files
  removed (\<open>Some m\<close>: \<^verbatim>\<open>os.remove\<close> raised \<^verbatim>\<open>OSError\<close>, which the tool only logs).
\<close>

datatype event =
    Ran "string list" proc_outcome
  | Wrote string "string option"
  | Removed string "string option"

datatype ctx_msg = Info string | Error string

text \<open>
  The state: the files on disk (path to content, one \<open>char\<close> per byte), the external
  actions so far and the messages sent to the FastMCP context.
\<close>

record world =
  files :: "string \<rightharpoonup> string"
  events :: "event list"
  ctx_log :: "ctx_msg list"

record column =
  col_name :: string
  data_type :: string

record table_info =
  table_name :: string
  columns :: "column list"
  row_count :: int

text \<open>A table argument of the two operations: \<^verbatim>\<open>table\<close>, \<^verbatim>\<open>catalog\<close>, \<^verbatim>\<open>schema\<close>.\<close>

record table_ref =
  table :: string
  catalog :: "string option"
  schema :: "string option"

text \<open>
  The collaborators. \<open>get_table_data\<close> and \<open>get_table_info\<close> are the two methods of
  \<^verbatim>\<open>DatabricksService\<close> the tool calls; they return or raise. \<open>subprocess_run\<close>
  answers for the external program on the current files, with the output as the program
  wrote it. \<open>exn_text\<close> is \<^verbatim>\<open>str(e)\<close>
  for the exceptions whose text the Python library or the operating system composes.
\<close>

record env =
  get_table_data :: "string \<Rightarrow> string option \<Rightarrow> string option \<Rightarrow> exn + string"
  get_table_info :: "string \<Rightarrow> string option \<Rightarrow> string option \<Rightarrow> exn + table_info"
  subprocess_run :: "string list \<Rightarrow> (string \<rightharpoonup> string) \<Rightarrow> proc_outcome"
  open_write_error :: "string \<Rightarrow> string option"
  remove_error :: "string \<Rightarrow> string option"
  exn_text :: "exn \<Rightarrow> string"

definition str_exn :: "env \<Rightarrow> exn \<Rightarrow> string" where
  "str_exn env e =
     (case e of
        DatabricksServiceError m \<Rightarrow> m
      | PyException m \<Rightarrow> m
      | _ \<Rightarrow> exn_text env e)"

definition ctx_info :: "string \<Rightarrow> world \<Rightarrow> world" where
  "ctx_info m w = w\<lparr>ctx_log := ctx_log w @ [Info m]\<rparr>"

definition ctx_error :: "string \<Rightarrow> world \<Rightarrow> world" where
  "ctx_error m w = w\<lparr>ctx_log := ctx_log w @ [Error m]\<rparr>"

text \<open>
  Both programs are run with \<^verbatim>\<open>text=True\<close>: Python decodes what the program wrote in
  universal-newlines mode, so every \<^verbatim>\<open>\r\n\<close> and every other \<^verbatim>\<open>\r\<close> reaches the tool as
  \<^verbatim>\<open>\n\<close>. (Writing the sample with \<^verbatim>\<open>open(path, 'w')\<close> changes nothing on POSIX.)
\<close>

fun universal_newlines :: "string \<Rightarrow> string" where
  "universal_newlines [] = []"
| "universal_newlines [c] = (if c = CHR 0x0D then [CHR ''\<newline>''] else [c])"
| "universal_newlines (c # d # cs) =
     (if c = CHR 0x0D
      then CHR ''\<newline>'' # (if d = CHR ''\<newline>'' then universal_newlines cs
                            else universal_newlines (d # cs))
      else c # universal_newlines (d # cs))"

fun text_mode :: "proc_outcome \<Rightarrow> proc_outcome" where
  "text_mode (Completed rc out err) = Completed rc (universal_newlines out) (universal_newlines err)"
| "text_mode TimedOut = TimedOut"
| "text_mode (SpawnFailed m) = SpawnFailed m"

text \<open>\<^verbatim>\<open>subprocess.run(cmd, capture_output=True, text=True, timeout=...)\<close>: the outcome as
  the tool receives it, which is also what the event records.\<close>

definition run_process :: "env \<Rightarrow> string list \<Rightarrow> world \<Rightarrow> proc_outcome \<times> world" where
  "run_process env cmd w =
     (let r = text_mode (subprocess_run env cmd (files w))
      in (r, w\<lparr>events := events w @ [Ran cmd r]\<rparr>))"

subsection \<open>Sample files\<close>

text \<open>The path \<^verbatim>\<open>_create_sample_file\<close> computes for its temporary file.\<close>

definition sample_file_name :: "string \<Rightarrow> int \<Rightarrow> string \<Rightarrow> string" where
  "sample_file_name original_file sample_size suffix =
     (let temp_dir = dirname original_file;
          base_name = basename original_file
      in path_join temp_dir (''sample_'' @ str_int sample_size @ suffix @ ''_'' @ base_name))"

definition head_command :: "int \<Rightarrow> string \<Rightarrow> string list" where
  "head_command sample_size original_file = [''head'', ''-n'', str_int sample_size, original_file]"

definition create_sample_file ::
  "env \<Rightarrow> string \<Rightarrow> int \<Rightarrow> string \<Rightarrow> world \<Rightarrow> (exn + string) \<times> world" where
  "create_sample_file env original_file sample_size suffix w =
     (let temp_file = sample_file_name original_file sample_size suffix;
          cmd = head_command sample_size original_file
      in case run_process env cmd w of
           (TimedOut, w1) \<Rightarrow> (Inl TimeoutExpired, w1)
         | (SpawnFailed m, w1) \<Rightarrow> (Inl (OSError m), w1)
         | (Completed returncode stdout stderr, w1) \<Rightarrow>
             if returncode \<noteq> 0
             then (Inl (PyException (''Failed to create sample file: '' @ stderr)), w1)
             else (case open_write_error env temp_file of
                     Some m \<Rightarrow>
                       (Inl (OSError m), w1\<lparr>events := events w1 @ [Wrote temp_file (Some m)]\<rparr>)
                   | None \<Rightarrow>
                       (Inr temp_file,
                        w1\<lparr>files := (files w1)(temp_file \<mapsto> stdout),
                           events := events w1 @ [Wrote temp_file None]\<rparr>)))"

fun cleanup_sample_files :: "env \<Rightarrow> string list \<Rightarrow> world \<Rightarrow> world" where
  "cleanup_sample_files env [] w = w"
| "cleanup_sample_files env (file_path # rest) w =
     cleanup_sample_files env rest
       (if files w file_path \<noteq> None
        then (case remove_error env file_path of
                None \<Rightarrow>
                  w\<lparr>files := (files w)(file_path := None),
                    events := events w @ [Removed file_path None]\<rparr>
              | Some m \<Rightarrow> w\<lparr>events := events w @ [Removed file_path (Some m)]\<rparr>)
        else w)"

subsection \<open>Results\<close>

text \<open>The dictionary the diff functions pass around; \<open>output_text\<close> is its key
  \<^verbatim>\<open>output\<close> and \<open>sample_size\<close> is a key only some have.\<close>

record diff_result =
  command :: string
  output_text :: string
  identical :: bool
  return_code :: int
  sample_size :: "int option"

record comparison_result =
  table1 :: string
  table2 :: string
  csv_path1 :: string
  csv_path2 :: string
  file_size1 :: nat
  file_size2 :: nat
  diff_output :: string
  files_identical :: bool
  diff_command :: string

record comparison_metrics =
  row_count_difference :: int
  column_count_difference :: int

text \<open>The two lists of missing columns are \<^verbatim>\<open>list(...)\<close> of a Python set: no duplicates
  and no order to rely on, hence sets.\<close>

record column_comparison =
  columns_match :: bool
  columns_missing_in_table2 :: "string set"
  columns_missing_in_table1 :: "string set"

text \<open>The quick comparison result. Python merges the keys of the two dictionaries above
  into it with \<^verbatim>\<open>result.update\<close>; here they stay two fields.\<close>

record quick_result =
  table1_info :: table_info
  table2_info :: table_info
  metrics :: comparison_metrics
  column_result :: column_comparison

text \<open>
  What an operation returns: \<^verbatim>\<open>{"success": True, ...}\<close> or
  \<^verbatim>\<open>{"success": False, "error": msg}\<close>.
\<close>

datatype 'a response = Success 'a | ErrorResult string

subsection \<open>The diff command and its result\<close>

definition build_diff_command :: "string \<Rightarrow> string \<Rightarrow> int \<Rightarrow> string list" where
  "build_diff_command file1 file2 context_lines =
     [''diff'', UNIFIED_DIFF_FORMAT @ str_int context_lines, file1, file2]"

definition execute_diff_command :: "env \<Rightarrow> string list \<Rightarrow> world \<Rightarrow> proc_outcome \<times> world" where
  "execute_diff_command env cmd w = run_process env cmd w"

definition process_diff_result ::
  "string list \<Rightarrow> int \<Rightarrow> string \<Rightarrow> string \<Rightarrow> exn + diff_result" where
  "process_diff_result cmd returncode stdout stderr =
     (if returncode = DIFF_SUCCESS_CODE then
        Inr \<lparr>command = join_with '' '' cmd, output_text = ''Files are identical'',
             identical = True, return_code = returncode, sample_size = None\<rparr>
      else if returncode = DIFF_DIFFERENT_CODE then
        Inr \<lparr>command = join_with '' '' cmd, output_text = limit_diff_output stdout,
             identical = False, return_code = returncode, sample_size = None\<rparr>
      else
        (let error_msg = (if stderr = [] then ''Unknown diff error'' else stderr)
         in Inl (CalledProcessError returncode cmd error_msg)))"

subsection \<open>Progressive sampling\<close>

text \<open>How one pass through the body of the loop ends: an exception, a \<^verbatim>\<open>return\<close>, or the
  next sample size.\<close>

datatype step = Raise exn | Return diff_result | Next

text \<open>The \<^verbatim>\<open>try\<close> block of the loop body.\<close>

definition diff_samples ::
  "env \<Rightarrow> string \<Rightarrow> string \<Rightarrow> string \<Rightarrow> string \<Rightarrow> int \<Rightarrow> int \<Rightarrow> world \<Rightarrow> step \<times> world" where
  "diff_samples env file1 file2 sample_file1 sample_file2 context_lines ssize w =
     (let cmd = build_diff_command sample_file1 sample_file2 context_lines in
      case execute_diff_command env cmd w of
        (TimedOut, w1) \<Rightarrow> (Raise TimeoutExpired, w1)
      | (SpawnFailed m, w1) \<Rightarrow> (Raise (OSError m), w1)
      | (Completed returncode stdout stderr, w1) \<Rightarrow>
          if returncode = DIFF_DIFFERENT_CODE then
            (case process_diff_result cmd returncode stdout stderr of
               Inl e \<Rightarrow> (Raise e, w1)
             | Inr d \<Rightarrow>
                 (Return (d\<lparr>command := ''diff (sample '' @ str_int ssize @ '' lines) ''
                                        @ file1 @ '' '' @ file2,
                            sample_size := Some ssize\<rparr>), w1))
          else if returncode \<noteq> DIFF_SUCCESS_CODE then
            (case process_diff_result cmd returncode stdout stderr of
               Inl e \<Rightarrow> (Raise e, w1)
             | Inr d \<Rightarrow> (Return d, w1))
          else (Next, w1))"

text \<open>The loop body: both samples are created before the \<^verbatim>\<open>try\<close>; the \<^verbatim>\<open>finally\<close>
  clause cleans up after the \<^verbatim>\<open>try\<close> block, however it ends.\<close>

definition sample_attempt ::
  "env \<Rightarrow> string \<Rightarrow> string \<Rightarrow> int \<Rightarrow> int \<Rightarrow> world \<Rightarrow> step \<times> world" where
  "sample_attempt env file1 file2 context_lines ssize w =
     (case create_sample_file env file1 ssize ''_1'' w of
        (Inl e, w1) \<Rightarrow> (Raise e, w1)
      | (Inr sample_file1, w1) \<Rightarrow>
          (case create_sample_file env file2 ssize ''_2'' w1 of
             (Inl e, w2) \<Rightarrow> (Raise e, w2)
           | (Inr sample_file2, w2) \<Rightarrow>
               (case diff_samples env file1 file2 sample_file1 sample_file2 context_lines ssize w2 of
                  (st, w3) \<Rightarrow> (st, cleanup_sample_files env [sample_file1, sample_file2] w3))))"

fun smart_diff_loop ::
  "env \<Rightarrow> string \<Rightarrow> string \<Rightarrow> int \<Rightarrow> int list \<Rightarrow> world \<Rightarrow> (exn + diff_result) \<times> world" where
  "smart_diff_loop env file1 file2 context_lines [] w =
     (Inr \<lparr>command = ''diff (smart sampling up to ''
                        @ str_int (last INCREMENTAL_SAMPLE_SIZES) @ '' lines)'',
           output_text = ''Files are identical (verified through progressive sampling)'',
           identical = True,
           return_code = DIFF_SUCCESS_CODE,
           sample_size = Some (last INCREMENTAL_SAMPLE_SIZES)\<rparr>, w)"
| "smart_diff_loop env file1 file2 context_lines (ssize # rest) w =
     (case sample_attempt env file1 file2 context_lines ssize w of
        (Raise e, w1) \<Rightarrow> (Inl e, w1)
      | (Return d, w1) \<Rightarrow> (Inr d, w1)
      | (Next, w1) \<Rightarrow> smart_diff_loop env file1 file2 context_lines rest w1)"

definition smart_diff_with_sampling ::
  "env \<Rightarrow> string \<Rightarrow> string \<Rightarrow> int \<Rightarrow> world \<Rightarrow> (exn + diff_result) \<times> world" where
  "smart_diff_with_sampling env file1 file2 context_lines w =
     smart_diff_loop env file1 file2 context_lines INCREMENTAL_SAMPLE_SIZES w"

definition run_diff_command ::
  "env \<Rightarrow> string \<Rightarrow> string \<Rightarrow> int \<Rightarrow> world \<Rightarrow> (exn + diff_result) \<times> world" where
  "run_diff_command env file1 file2 context_lines w =
     (let actual_context_lines = min context_lines MAX_DIFF_OUTPUT_LINES in
      case smart_diff_with_sampling env file1 file2 actual_context_lines w of
        (Inr d, w1) \<Rightarrow> (Inr d, w1)
      | (Inl TimeoutExpired, w1) \<Rightarrow>
          (Inl (PyException (''Diff command timed out after ''
                  @ str_int (DIFF_TIMEOUT_SECONDS div 60) @ '' minutes'')), w1)
      | (Inl (CalledProcessError rc cmd out), w1) \<Rightarrow>
          (Inl (PyException (''Diff command failed: ''
                  @ str_exn env (CalledProcessError rc cmd out))), w1)
      | (Inl e, w1) \<Rightarrow> (Inl (PyException (''Error running diff: '' @ str_exn env e)), w1))"

subsection \<open>Full comparison\<close>

definition retrieve_table_data ::
  "env \<Rightarrow> table_ref \<Rightarrow> table_ref \<Rightarrow> world \<Rightarrow> (exn + string \<times> string) \<times> world" where
  "retrieve_table_data env ref1 ref2 w =
     (let w1 = ctx_info ''Retrieving data from first table...'' w in
      case get_table_data env (table ref1) (catalog ref1) (schema ref1) of
        Inl e \<Rightarrow> (Inl e, w1)
      | Inr path1 \<Rightarrow>
          (let w2 = ctx_info ''Retrieving data from second table...'' w1 in
           case get_table_data env (table ref2) (catalog ref2) (schema ref2) of
             Inl e \<Rightarrow> (Inl e, w2)
           | Inr path2 \<Rightarrow> (Inr (path1, path2), w2)))"

text \<open>\<^verbatim>\<open>os.path.getsize\<close>: the size in bytes, or \<^verbatim>\<open>OSError\<close> for a missing file.\<close>

definition getsize :: "world \<Rightarrow> string \<Rightarrow> exn + nat" where
  "getsize w p = (case files w p of None \<Rightarrow> Inl (OSError p) | Some c \<Rightarrow> Inr (length c))"

definition get_file_comparison_info :: "world \<Rightarrow> string \<Rightarrow> string \<Rightarrow> exn + nat \<times> nat" where
  "get_file_comparison_info w path1 path2 =
     (case getsize w path1 of
        Inl e \<Rightarrow> Inl e
      | Inr size1 \<Rightarrow> (case getsize w path2 of Inl e \<Rightarrow> Inl e | Inr size2 \<Rightarrow> Inr (size1, size2)))"

definition create_comparison_result ::
  "string \<Rightarrow> string \<Rightarrow> string \<Rightarrow> string \<Rightarrow> diff_result \<Rightarrow> nat \<times> nat \<Rightarrow> comparison_result" where
  "create_comparison_result t1 t2 path1 path2 d file_info =
     \<lparr>table1 = t1, table2 = t2, csv_path1 = path1, csv_path2 = path2,
      file_size1 = fst file_info, file_size2 = snd file_info,
      diff_output = output_text d, files_identical = identical d, diff_command = command d\<rparr>"

definition handle_databricks_error ::
  "string \<Rightarrow> world \<Rightarrow> (exn + 'a response) \<times> world" where
  "handle_databricks_error error_msg w = (Inr (ErrorResult error_msg), ctx_error error_msg w)"

definition handle_unexpected_error ::
  "env \<Rightarrow> exn \<Rightarrow> world \<Rightarrow> (exn + 'a response) \<times> world" where
  "handle_unexpected_error env e w =
     (let error_msg = ''Unexpected error comparing tables: '' @ str_exn env e
      in (Inr (ErrorResult (str_exn env e)), ctx_error error_msg w))"

text \<open>The \<^verbatim>\<open>try\<close> block of \<^verbatim>\<open>compare_tables\<close>.\<close>

definition compare_tables_try ::
  "env \<Rightarrow> table_ref \<Rightarrow> table_ref \<Rightarrow> int \<Rightarrow> world \<Rightarrow> (exn + comparison_result) \<times> world" where
  "compare_tables_try env ref1 ref2 diff_lines w =
     (case retrieve_table_data env ref1 ref2 w of
        (Inl e, w1) \<Rightarrow> (Inl e, w1)
      | (Inr (path1, path2), w1) \<Rightarrow>
          (case run_diff_command env path1 path2 diff_lines
                  (ctx_info ''Running diff comparison...'' w1) of
             (Inl e, w2) \<Rightarrow> (Inl e, w2)
           | (Inr d, w2) \<Rightarrow>
               (case get_file_comparison_info w2 path1 path2 of
                  Inl e \<Rightarrow> (Inl e, w2)
                | Inr file_info \<Rightarrow>
                    (Inr (create_comparison_result (table ref1) (table ref2) path1 path2 d file_info),
                     ctx_info ''Table comparison completed'' w2))))"

text \<open>The operation. Its result is a sum so that an exception leaving it would show as
  \<open>Inl\<close>; the two \<^verbatim>\<open>except\<close> clauses turn every exception into an error result.\<close>

definition compare_tables ::
  "env \<Rightarrow> table_ref \<Rightarrow> table_ref \<Rightarrow> int \<Rightarrow> world
     \<Rightarrow> (exn + comparison_result response) \<times> world" where
  "compare_tables env ref1 ref2 diff_lines w =
     (case compare_tables_try env ref1 ref2 diff_lines
             (ctx_info (''Comparing tables: '' @ table ref1 @ '' vs '' @ table ref2) w) of
        (Inr r, w1) \<Rightarrow> (Inr (Success r), w1)
      | (Inl (DatabricksServiceError m), w1) \<Rightarrow> handle_databricks_error m w1
      | (Inl e, w1) \<Rightarrow> handle_unexpected_error env e w1)"

subsection \<open>Quick comparison\<close>

definition get_both_table_infos ::
  "env \<Rightarrow> table_ref \<Rightarrow> table_ref \<Rightarrow> exn + table_info \<times> table_info" where
  "get_both_table_infos env ref1 ref2 =
     (case get_table_info env (table ref1) (catalog ref1) (schema ref1) of
        Inl e \<Rightarrow> Inl e
      | Inr info1 \<Rightarrow>
          (case get_table_info env (table ref2) (catalog ref2) (schema ref2) of
             Inl e \<Rightarrow> Inl e
           | Inr info2 \<Rightarrow> Inr (info1, info2)))"

definition calculate_comparison_metrics :: "table_info \<Rightarrow> table_info \<Rightarrow> comparison_metrics" where
  "calculate_comparison_metrics info1 info2 =
     \<lparr>row_count_difference = row_count info1 - row_count info2,
      column_count_difference = int (length (columns info1)) - int (length (columns info2))\<rparr>"

definition compare_columns :: "column list \<Rightarrow> column list \<Rightarrow> column_comparison" where
  "compare_columns cols1 cols2 =
     (let col_names1 = set (map col_name cols1);
          col_names2 = set (map col_name cols2)
      in \<lparr>columns_match = (col_names1 = col_names2),
          columns_missing_in_table2 = col_names1 - col_names2,
          columns_missing_in_table1 = col_names2 - col_names1\<rparr>)"

definition create_quick_comparison_result ::
  "table_info \<Rightarrow> table_info \<Rightarrow> comparison_metrics \<Rightarrow> column_comparison \<Rightarrow> quick_result" where
  "create_quick_comparison_result info1 info2 m c =
     \<lparr>table1_info = info1, table2_info = info2, metrics = m, column_result = c\<rparr>"

definition handle_quick_comparison_error ::
  "env \<Rightarrow> exn \<Rightarrow> world \<Rightarrow> (exn + 'a response) \<times> world" where
  "handle_quick_comparison_error env e w =
     (let error_msg = ''Unexpected error in quick comparison: '' @ str_exn env e
      in (Inr (ErrorResult (str_exn env e)), ctx_error error_msg w))"

definition quick_compare_tables_try ::
  "env \<Rightarrow> table_ref \<Rightarrow> table_ref \<Rightarrow> world \<Rightarrow> (exn + quick_result) \<times> world" where
  "quick_compare_tables_try env ref1 ref2 w =
     (case get_both_table_infos env ref1 ref2 of
        Inl e \<Rightarrow> (Inl e, w)
      | Inr (info1, info2) \<Rightarrow>
          (let comparison_metrics = calculate_comparison_metrics info1 info2;
               column_comparison = compare_columns (columns info1) (columns info2)
           in (Inr (create_quick_comparison_result info1 info2 comparison_metrics column_comparison),
               ctx_info ''Quick table comparison completed'' w)))"

definition quick_compare_tables ::
  "env \<Rightarrow> table_ref \<Rightarrow> table_ref \<Rightarrow> world \<Rightarrow> (exn + quick_result response) \<times> world" where
  "quick_compare_tables env ref1 ref2 w =
     (case quick_compare_tables_try env ref1 ref2
             (ctx_info (''Quick comparing tables: '' @ table ref1 @ '' vs '' @ table ref2) w) of
        (Inr r, w1) \<Rightarrow> (Inr (Success r), w1)
      | (Inl (DatabricksServiceError m), w1) \<Rightarrow> handle_databricks_error m w1
      | (Inl e, w1) \<Rightarrow> handle_quick_comparison_error env e w1)"

subsection \<open>The part of \<^verbatim>\<open>DatabricksService\<close> that names the data files\<close>

definition CSV_FILE_EXTENSION :: string where
  "CSV_FILE_EXTENSION = ''.csv''"

text \<open>The path \<^verbatim>\<open>_save_dataframe_to_csv\<close> writes to, which \<^verbatim>\<open>get_table_data\<close> returns.\<close>

definition save_dataframe_to_csv_path :: "string \<Rightarrow> string \<Rightarrow> string" where
  "save_dataframe_to_csv_path temp_dir tname = path_join temp_dir (tname @ CSV_FILE_EXTENSION)"

subsection \<open>Vocabulary of the statements\<close>

text \<open>The first \<open>n\<close> lines of a text, line terminators included: what \<^verbatim>\<open>head -n\<close> prints.\<close>

fun head_lines :: "nat \<Rightarrow> string \<Rightarrow> string" where
  "head_lines 0 t = []"
| "head_lines (Suc n) [] = []"
| "head_lines (Suc n) (c # cs) =
     c # (if c = CHR ''\<newline>'' then head_lines n cs else head_lines (Suc n) cs)"









text \<open>The commands of the processes among some events, in order.\<close>

fun ran_commands :: "event list \<Rightarrow> string list list" where
  "ran_commands [] = []"
| "ran_commands (Ran cmd r # evs) = cmd # ran_commands evs"
| "ran_commands (Wrote p r # evs) = ran_commands evs"
| "ran_commands (Removed p r # evs) = ran_commands evs"

text \<open>The paths of the sample files the tool wrote, tried to write or removed, in order.\<close>

fun touched_paths :: "event list \<Rightarrow> string list" where
  "touched_paths [] = []"
| "touched_paths (Wrote p r # evs) = p # touched_paths evs"
| "touched_paths (Removed p r # evs) = p # touched_paths evs"
| "touched_paths (Ran cmd r # evs) = touched_paths evs"


text \<open>A failed action: a process that timed out or did not start, a \<^verbatim>\<open>diff\<close> with an exit
  status other than 0 and 1, any other process with a status other than 0, a sample file
  that could not be written. A removal that fails is logged and is no failure of the call.\<close>

fun failed :: "event \<Rightarrow> bool" where
  "failed (Ran cmd TimedOut) = True"
| "failed (Ran cmd (SpawnFailed m)) = True"
| "failed (Ran cmd (Completed rc out err)) =
     (if take 1 cmd = [''diff''] then rc \<noteq> 0 \<and> rc \<noteq> 1 else rc \<noteq> 0)"
| "failed (Wrote p r) = (r \<noteq> None)"
| "failed (Removed p r) = False"

fun is_removal :: "event \<Rightarrow> bool" where
  "is_removal (Removed p r) = True"
| "is_removal (Ran cmd r) = False"
| "is_removal (Wrote p r) = False"

text \<open>After the first failed action, if there is one, only removals follow.\<close>

fun clean_abort :: "event list \<Rightarrow> bool" where
  "clean_abort [] = True"
| "clean_abort (ev # evs) = (if failed ev then list_all is_removal evs else clean_abort evs)"

text \<open>A \<^verbatim>\<open>diff\<close> process was started with the unified-context argument \<open>u\<close>; holds of
  every other event.\<close>

fun diff_argument_is :: "string \<Rightarrow> event \<Rightarrow> bool" where
  "diff_argument_is u (Ran cmd r) =
     (take 1 cmd \<noteq> [''diff''] \<or> (case cmd of [prog, a, p1, p2] \<Rightarrow> a = u | _ \<Rightarrow> False))"
| "diff_argument_is u (Wrote p r) = True"
| "diff_argument_is u (Removed p r) = True"

subsection \<open>A concrete environment\<close>

text \<open>A plain model of the two programs, for evaluating the tool on concrete files:
  \<^verbatim>\<open>head -n N FILE\<close> and \<^verbatim>\<open>diff -uK FILE1 FILE2\<close>, whose text here lists the lines of the
  first file with \<open>-\<close> and those of the second with \<open>+\<close>. As the real program does,
  this \<^verbatim>\<open>diff\<close> ends in trouble (status 2) when \<open>K\<close> is not a number without sign.\<close>

definition parse_nat :: "string \<Rightarrow> nat" where
  "parse_nat s = foldl (\<lambda>acc c. 10 * acc + (of_char c - 48)) 0 s"

definition plain_diff_text :: "string \<Rightarrow> string \<Rightarrow> string \<Rightarrow> string \<Rightarrow> string" where
  "plain_diff_text p1 p2 a b =
     ''--- '' @ p1 @ ''\<newline>+++ '' @ p2 @ ''\<newline>''
       @ concat (map (\<lambda>l. ''-'' @ l @ ''\<newline>'') (split_on CHR ''\<newline>'' a))
       @ concat (map (\<lambda>l. ''+'' @ l @ ''\<newline>'') (split_on CHR ''\<newline>'' b))"

definition valid_context :: "string \<Rightarrow> bool" where
  "valid_context a \<longleftrightarrow>
     take 2 a = ''-u'' \<and> drop 2 a \<noteq> [] \<and> list_all (\<lambda>c. c \<in> set ''0123456789'') (drop 2 a)"

definition posix_tools :: "string list \<Rightarrow> (string \<rightharpoonup> string) \<Rightarrow> proc_outcome" where
  "posix_tools cmd fs =
     (case cmd of
        [prog, a, b, c] \<Rightarrow>
          if prog = ''head'' \<and> a = ''-n'' then
            (case fs c of
               None \<Rightarrow> Completed 1 [] (''head: cannot open '' @ c)
             | Some t \<Rightarrow> Completed 0 (head_lines (parse_nat b) t) [])
          else if prog = ''diff'' then
            (if \<not> valid_context a then Completed 2 [] ''diff: invalid context length''
             else
               (case fs b of
                  None \<Rightarrow> Completed 2 [] (''diff: '' @ b @ '': No such file or directory'')
                | Some x \<Rightarrow>
                    (case fs c of
                       None \<Rightarrow> Completed 2 [] (''diff: '' @ c @ '': No such file or directory'')
                     | Some y \<Rightarrow>
                         if x = y then Completed 0 [] []
                         else Completed 1 (plain_diff_text b c x y) [])))
          else SpawnFailed prog
      | _ \<Rightarrow> SpawnFailed (join_with '' '' cmd))"

definition demo_info :: table_info where
  "demo_info =
     \<lparr>table_name = ''test_catalog.test_schema.test_table'',
      columns = [\<lparr>col_name = ''id'', data_type = ''int''\<rparr>,
                 \<lparr>col_name = ''name'', data_type = ''string''\<rparr>,
                 \<lparr>col_name = ''value'', data_type = ''int''\<rparr>],
      row_count = 1000\<rparr>"

text \<open>The service keeps its files in \<^verbatim>\<open>/tmp/databricks\<close>; the table \<^verbatim>\<open>table2\<close> has 1200
  rows, every other table 1000; the tools are the plain ones; every write and removal
  succeeds.\<close>

definition demo_env :: env where
  "demo_env =
     \<lparr>get_table_data = (\<lambda>t c s. Inr (save_dataframe_to_csv_path ''/tmp/databricks'' t)),
      get_table_info =
        (\<lambda>t c s. Inr (if t = ''table2'' then demo_info\<lparr>row_count := 1200\<rparr> else demo_info)),
      subprocess_run = posix_tools,
      open_write_error = (\<lambda>p. None),
      remove_error = (\<lambda>p. None),
      exn_text = (\<lambda>e. ''error'')\<rparr>"

text \<open>The same, with a \<^verbatim>\<open>diff\<close> that ends in trouble (exit status 2) on samples of 25
  lines.\<close>

definition trouble_env :: env where
  "trouble_env =
     demo_env\<lparr>subprocess_run :=
       (\<lambda>cmd fs. if cmd = build_diff_command ''/tmp/databricks/sample_25_1_table1.csv''
                                               ''/tmp/databricks/sample_25_2_table2.csv'' 10
                  then Completed 2 [] ''diff: trouble'' else posix_tools cmd fs)\<rparr>"

text \<open>The same, with a service that does not find the tables.\<close>

definition unavailable_env :: env where
  "unavailable_env =
     demo_env\<lparr>get_table_data := (\<lambda>t c s. Inl (DatabricksServiceError ''Table not found'')),
              get_table_info := (\<lambda>t c s. Inl (DatabricksServiceError ''Table not found''))\<rparr>"

definition ref1 :: table_ref where
  "ref1 = \<lparr>table = ''table1'', catalog = None, schema = None\<rparr>"

definition ref2 :: table_ref where
  "ref2 = \<lparr>table = ''table2'', catalog = None, schema = None\<rparr>"

text \<open>Disks with the two data files: identical ones, and ones that differ in their second
  line.\<close>

definition world_same :: world where
  "world_same =
     \<lparr>files = [''/tmp/databricks/table1.csv'' \<mapsto> ''id,name,value\<newline>1,test,100\<newline>2,example,200\<newline>'',
               ''/tmp/databricks/table2.csv'' \<mapsto> ''id,name,value\<newline>1,test,100\<newline>2,example,200\<newline>''],
      events = [], ctx_log = []\<rparr>"




text \<open>A disk where the second data file is missing.\<close>

definition world_missing :: world where
  "world_missing =
     \<lparr>files = [''/tmp/databricks/table1.csv'' \<mapsto> ''id,name,value\<newline>1,test,100\<newline>2,example,200\<newline>''],
      events = [], ctx_log = []\<rparr>"

text \<open>A table whose name is that of a sample file of another table: the data file of
  \<^verbatim>\<open>sample_5_1_t\<close> is where the tool writes the 5-line sample of \<^verbatim>\<open>t\<close>.\<close>

definition ref_t :: table_ref where
  "ref_t = \<lparr>table = ''t'', catalog = None, schema = None\<rparr>"

definition ref_sample :: table_ref where
  "ref_sample = \<lparr>table = ''sample_5_1_t'', catalog = None, schema = None\<rparr>"

definition world_collision :: world where
  "world_collision =
     \<lparr>files = [''/tmp/databricks/t.csv'' \<mapsto> ''id\<newline>1\<newline>'',
               ''/tmp/databricks/sample_5_1_t.csv'' \<mapsto> ''id\<newline>2\<newline>''],
      events = [], ctx_log = []\<rparr>"

section \<open>Properties\<close>

subsection \<open>Splitting and joining\<close>

lemma split_on_not_Nil: "split_on sep s \<noteq> []"
  by (induction s) (auto split: list.splits)

lemma join_split_on: "join_with [sep] (split_on sep s) = s"
proof (induction s)
  case Nil
  show ?case by simp
next
  case (Cons c cs)
  obtain l ls where sp: "split_on sep cs = l # ls"
    using split_on_not_Nil [of sep cs] by (cases "split_on sep cs") auto
  show ?case
  proof (cases "c = sep")
    case True
    with Cons sp show ?thesis by simp
  next
    case False
    with Cons sp show ?thesis by (cases ls) auto
  qed
qed








subsection \<open>Decimal numerals\<close>

lemma str_nat_small: "n < 10 \<Longrightarrow> str_nat n = [digit_char n]"
  by (subst str_nat.simps) simp










subsection \<open>Bounding the diff text\<close>





















text \<open>The text the tool returns for 10 lines with a final newline, as \<^verbatim>\<open>diff\<close> writes
  them: nothing is left out, and the notice reports one line.\<close>

lemma final_newline_counts_as_a_line:
  "limit_diff_output ''+r1\<newline>+r2\<newline>-r3\<newline>+r4\<newline>-r5\<newline>+r6\<newline>-r7\<newline>+r8\<newline>-r9\<newline>+r10\<newline>''
     = ''+r1\<newline>+r2\<newline>-r3\<newline>+r4\<newline>-r5\<newline>+r6\<newline>-r7\<newline>+r8\<newline>-r9\<newline>+r10\<newline>\<newline>... (truncated 1 more lines, showing first 10 lines)''"
  by code_simp




subsection \<open>Quick comparison\<close>

text \<open>
  C6. When the service returns both table summaries, the quick comparison succeeds, and
  its two differences are the signed ones, table 1 minus table 2: the row counts
  subtracted as integers, and the numbers of columns subtracted as integers. The column
  part of the result is that of \<open>compare_columns\<close>.
\<close>

theorem quick_compare_signed_differences:
  assumes "get_table_info env (table r1) (catalog r1) (schema r1) = Inr info1"
    and "get_table_info env (table r2) (catalog r2) (schema r2) = Inr info2"
  shows "\<exists>q w'. quick_compare_tables env r1 r2 w = (Inr (Success q), w')
           \<and> row_count_difference (metrics q) = row_count info1 - row_count info2
           \<and> column_count_difference (metrics q)
                = int (length (columns info1)) - int (length (columns info2))
           \<and> column_result q = compare_columns (columns info1) (columns info2)
           \<and> table1_info q = info1 \<and> table2_info q = info2"
  using assms
  by (simp add: quick_compare_tables_def quick_compare_tables_try_def get_both_table_infos_def
      calculate_comparison_metrics_def create_quick_comparison_result_def Let_def)

theorem quick_compare_signed_differences_witness:
  "\<exists>q w'. quick_compare_tables demo_env ref1 ref2 world_same = (Inr (Success q), w')
     \<and> row_count (table1_info q) = 1000 \<and> row_count (table2_info q) = 1200
     \<and> row_count_difference (metrics q) = - 200
     \<and> column_count_difference (metrics q) = 0
     \<and> columns_match (column_result q) = True"
proof -
  have i1: "get_table_info demo_env (table ref1) (catalog ref1) (schema ref1) = Inr demo_info"
    by (simp add: demo_env_def ref1_def)
  have i2: "get_table_info demo_env (table ref2) (catalog ref2) (schema ref2)
              = Inr (demo_info\<lparr>row_count := 1200\<rparr>)"
    by (simp add: demo_env_def ref2_def)
  from quick_compare_signed_differences [OF i1 i2, of world_same]
  show ?thesis
    by (auto simp: demo_info_def compare_columns_def)
qed

text \<open>
  C7. The comparison of columns looks at the set of column names only. The tables match
  exactly when the two sets are equal. A name is in the collection of columns missing
  in table 2 exactly when table 1 has it and table 2 does not, and symmetrically, so no
  name is in both collections and a name of both tables is in neither. Two column lists
  with the same set of names (other types, another order, repeated names) give the same
  result.
\<close>

theorem compare_columns_by_name_sets:
  "(columns_match (compare_columns cols1 cols2)
      \<longleftrightarrow> set (map col_name cols1) = set (map col_name cols2)) \<and>
   (\<forall>n. (n \<in> columns_missing_in_table2 (compare_columns cols1 cols2)
            \<longleftrightarrow> n \<in> set (map col_name cols1) \<and> n \<notin> set (map col_name cols2)) \<and>
        (n \<in> columns_missing_in_table1 (compare_columns cols1 cols2)
            \<longleftrightarrow> n \<in> set (map col_name cols2) \<and> n \<notin> set (map col_name cols1))) \<and>
   columns_missing_in_table1 (compare_columns cols1 cols2)
     \<inter> columns_missing_in_table2 (compare_columns cols1 cols2) = {} \<and>
   (set (map col_name cols1) = set (map col_name cols1') \<longrightarrow>
    set (map col_name cols2) = set (map col_name cols2') \<longrightarrow>
      compare_columns cols1 cols2 = compare_columns cols1' cols2')"
  by (auto simp: compare_columns_def Let_def)

theorem compare_columns_by_name_sets_witness:
  "\<not> columns_match
       (compare_columns
          [\<lparr>col_name = ''id'', data_type = ''int''\<rparr>, \<lparr>col_name = ''name'', data_type = ''string''\<rparr>,
           \<lparr>col_name = ''value'', data_type = ''int''\<rparr>]
          [\<lparr>col_name = ''name'', data_type = ''text''\<rparr>, \<lparr>col_name = ''email'', data_type = ''string''\<rparr>,
           \<lparr>col_name = ''id'', data_type = ''bigint''\<rparr>]) \<and>
   ''value'' \<in> columns_missing_in_table2
       (compare_columns
          [\<lparr>col_name = ''id'', data_type = ''int''\<rparr>, \<lparr>col_name = ''name'', data_type = ''string''\<rparr>,
           \<lparr>col_name = ''value'', data_type = ''int''\<rparr>]
          [\<lparr>col_name = ''name'', data_type = ''text''\<rparr>, \<lparr>col_name = ''email'', data_type = ''string''\<rparr>,
           \<lparr>col_name = ''id'', data_type = ''bigint''\<rparr>]) \<and>
   ''value'' \<notin> columns_missing_in_table1
       (compare_columns
          [\<lparr>col_name = ''id'', data_type = ''int''\<rparr>, \<lparr>col_name = ''name'', data_type = ''string''\<rparr>,
           \<lparr>col_name = ''value'', data_type = ''int''\<rparr>]
          [\<lparr>col_name = ''name'', data_type = ''text''\<rparr>, \<lparr>col_name = ''email'', data_type = ''string''\<rparr>,
           \<lparr>col_name = ''id'', data_type = ''bigint''\<rparr>]) \<and>
   compare_columns
     [\<lparr>col_name = ''id'', data_type = ''int''\<rparr>, \<lparr>col_name = ''name'', data_type = ''string''\<rparr>]
     [\<lparr>col_name = ''name'', data_type = ''text''\<rparr>, \<lparr>col_name = ''id'', data_type = ''bigint''\<rparr>]
   = compare_columns
     [\<lparr>col_name = ''name'', data_type = ''string''\<rparr>, \<lparr>col_name = ''id'', data_type = ''int''\<rparr>]
     [\<lparr>col_name = ''id'', data_type = ''int''\<rparr>, \<lparr>col_name = ''name'', data_type = ''string''\<rparr>]"
proof -
  let ?a = "[\<lparr>col_name = ''id'', data_type = ''int''\<rparr>, \<lparr>col_name = ''name'', data_type = ''string''\<rparr>,
             \<lparr>col_name = ''value'', data_type = ''int''\<rparr>]"
  let ?b = "[\<lparr>col_name = ''name'', data_type = ''text''\<rparr>, \<lparr>col_name = ''email'', data_type = ''string''\<rparr>,
             \<lparr>col_name = ''id'', data_type = ''bigint''\<rparr>]"
  let ?c = "[\<lparr>col_name = ''id'', data_type = ''int''\<rparr>, \<lparr>col_name = ''name'', data_type = ''string''\<rparr>]"
  let ?d = "[\<lparr>col_name = ''name'', data_type = ''text''\<rparr>, \<lparr>col_name = ''id'', data_type = ''bigint''\<rparr>]"
  let ?c' = "[\<lparr>col_name = ''name'', data_type = ''string''\<rparr>, \<lparr>col_name = ''id'', data_type = ''int''\<rparr>]"
  let ?d' = "[\<lparr>col_name = ''id'', data_type = ''int''\<rparr>, \<lparr>col_name = ''name'', data_type = ''string''\<rparr>]"
  have ne: "set (map col_name ?a) \<noteq> set (map col_name ?b)" by code_simp
  have v: "''value'' \<in> set (map col_name ?a) \<and> ''value'' \<notin> set (map col_name ?b)"
    by code_simp
  have s1: "set (map col_name ?c) = set (map col_name ?c')" by code_simp
  have s2: "set (map col_name ?d) = set (map col_name ?d')" by code_simp
  note t = compare_columns_by_name_sets [of ?a ?b]
  have m: "\<not> columns_match (compare_columns ?a ?b)"
  proof
    assume "columns_match (compare_columns ?a ?b)"
    then have "set (map col_name ?a) = set (map col_name ?b)"
      by (rule t [THEN conjunct1, THEN iffD1])
    with ne show False by (rule notE)
  qed
  note u = t [THEN conjunct2, THEN conjunct1, rule_format, of "''value''"]
  have in2: "''value'' \<in> columns_missing_in_table2 (compare_columns ?a ?b)"
    by (rule u [THEN conjunct1, THEN iffD2]) (rule v)
  have out1: "''value'' \<notin> columns_missing_in_table1 (compare_columns ?a ?b)"
  proof
    assume "''value'' \<in> columns_missing_in_table1 (compare_columns ?a ?b)"
    then have "''value'' \<in> set (map col_name ?b) \<and> ''value'' \<notin> set (map col_name ?a)"
      by (rule u [THEN conjunct2, THEN iffD1])
    then have "''value'' \<in> set (map col_name ?b)" by (rule conjunct1)
    with v [THEN conjunct2] show False by (rule notE)
  qed
  have same: "compare_columns ?c ?d = compare_columns ?c' ?d'"
    by (rule compare_columns_by_name_sets [of ?c ?d ?c' ?d', THEN conjunct2, THEN conjunct2,
          THEN conjunct2, rule_format, OF s1 s2])
  show ?thesis
    by (intro conjI) (rule m, rule in2, rule out1, rule same)
qed

subsection \<open>Paths of the sample files\<close>











subsection \<open>The first lines of a text\<close>



subsection \<open>Events\<close>



lemma touched_paths_append: "touched_paths (a @ b) = touched_paths a @ touched_paths b"
  by (induction a rule: touched_paths.induct) auto




subsection \<open>The steps of one sampling attempt\<close>





lemma cleanup_events:
  "\<exists>evs. events (cleanup_sample_files env ps w) = events w @ evs \<and> list_all is_removal evs
     \<and> set (touched_paths evs) \<subseteq> set ps"
proof (induction ps arbitrary: w)
  case Nil
  show ?case by simp
next
  case (Cons p ps)
  let ?w = "if files w p \<noteq> None
            then (case remove_error env p of
                    None \<Rightarrow> w\<lparr>files := (files w)(p := None),
                                events := events w @ [Removed p None]\<rparr>
                  | Some m \<Rightarrow> w\<lparr>events := events w @ [Removed p (Some m)]\<rparr>)
            else w"
  have "\<exists>e1. events ?w = events w @ e1 \<and> list_all is_removal e1 \<and> set (touched_paths e1) \<subseteq> {p}"
    by (cases "files w p"; cases "remove_error env p") auto
  then obtain e1 where e1: "events ?w = events w @ e1" "list_all is_removal e1"
      "set (touched_paths e1) \<subseteq> {p}"
    by blast
  from Cons [of ?w] obtain e2
    where e2: "events (cleanup_sample_files env ps ?w) = events ?w @ e2" "list_all is_removal e2"
      "set (touched_paths e2) \<subseteq> set ps"
    by blast
  have "events (cleanup_sample_files env (p # ps) w) = events w @ (e1 @ e2)"
    using e1(1) e2(1) by simp
  moreover have "list_all is_removal (e1 @ e2)" using e1(2) e2(2) by simp
  moreover have "set (touched_paths (e1 @ e2)) \<subseteq> set (p # ps)"
    using e1(3) e2(3) by (auto simp: touched_paths_append)
  ultimately show ?case by blast
qed



subsection \<open>The concrete environment behaves\<close>








subsection \<open>Progressive sampling\<close>









subsection \<open>The external actions of a call\<close>

lemma removal_not_failed: "is_removal ev \<Longrightarrow> \<not> failed ev"
  by (cases ev) auto

lemma removals_not_failed: "list_all is_removal evs \<Longrightarrow> \<not> list_ex failed evs"
  by (induction evs) (auto simp: removal_not_failed)

lemma removals_any_argument: "list_all is_removal evs \<Longrightarrow> list_all (diff_argument_is u) evs"
proof (induction evs)
  case Nil
  show ?case by simp
next
  case (Cons ev evs)
  then show ?case by (cases ev) auto
qed

lemma clean_abort_no_failure: "\<not> list_ex failed a \<Longrightarrow> clean_abort (a @ b) = clean_abort b"
  by (induction a) auto

lemma clean_abort_removals: "list_all is_removal b \<Longrightarrow> clean_abort b"
  by (induction b) (auto simp: removal_not_failed)

lemma clean_abort_append_removals:
  "clean_abort a \<Longrightarrow> list_all is_removal b \<Longrightarrow> clean_abort (a @ b)"
  by (induction a) (auto simp: clean_abort_removals)

lemma failed_head:
  "failed (Ran (head_command n p) (Completed rc out err)) \<longleftrightarrow> rc \<noteq> 0"
  by (simp add: head_command_def)

lemma failed_diff:
  "failed (Ran (build_diff_command p1 p2 k) (Completed rc out err)) \<longleftrightarrow> rc \<noteq> 0 \<and> rc \<noteq> 1"
  by (simp add: build_diff_command_def)

lemma head_any_argument: "diff_argument_is u (Ran (head_command n p) r)"
  by (simp add: head_command_def)

lemma diff_command_argument:
  "diff_argument_is (''-u'' @ str_int k) (Ran (build_diff_command p1 p2 k) r)"
  by (simp add: build_diff_command_def UNIFIED_DIFF_FORMAT_def)

lemma create_sample_file_events:
  assumes "create_sample_file env p n suffix w = (r, w')"
  shows "\<exists>evs. events w' = events w @ evs \<and> list_all (diff_argument_is u) evs
           \<and> clean_abort evs \<and> (list_ex failed evs \<longleftrightarrow> isl r)"
proof (cases "text_mode (subprocess_run env (head_command n p) (files w))")
  case (Completed rc out err)
  show ?thesis
  proof (cases "rc = 0")
    case True
    show ?thesis
    proof (cases "open_write_error env (sample_file_name p n suffix)")
      case None
      with assms Completed True
      have "events w' = events w @ [Ran (head_command n p) (Completed rc out err),
                                    Wrote (sample_file_name p n suffix) None]" and "\<not> isl r"
        by (auto simp: create_sample_file_def run_process_def Let_def)
      with True show ?thesis by (auto simp: failed_head head_any_argument simp del: failed.simps(3) diff_argument_is.simps(1))
    next
      case (Some m)
      with assms Completed True
      have "events w' = events w @ [Ran (head_command n p) (Completed rc out err),
                                    Wrote (sample_file_name p n suffix) (Some m)]" and "isl r"
        by (auto simp: create_sample_file_def run_process_def Let_def)
      with True show ?thesis by (auto simp: failed_head head_any_argument simp del: failed.simps(3) diff_argument_is.simps(1))
    qed
  next
    case False
    with assms Completed
    have "events w' = events w @ [Ran (head_command n p) (Completed rc out err)]" and "isl r"
      by (auto simp: create_sample_file_def run_process_def Let_def)
    with False show ?thesis by (auto simp: failed_head head_any_argument simp del: failed.simps(3) diff_argument_is.simps(1))
  qed
next
  case TimedOut
  with assms have "events w' = events w @ [Ran (head_command n p) TimedOut]" and "isl r"
    by (auto simp: create_sample_file_def run_process_def Let_def)
  then show ?thesis by (auto simp: failed_head head_any_argument simp del: failed.simps(3) diff_argument_is.simps(1))
next
  case (SpawnFailed m)
  with assms have "events w' = events w @ [Ran (head_command n p) (SpawnFailed m)]" and "isl r"
    by (auto simp: create_sample_file_def run_process_def Let_def)
  then show ?thesis by (auto simp: failed_head head_any_argument simp del: failed.simps(3) diff_argument_is.simps(1))
qed

lemma diff_samples_events:
  assumes "diff_samples env f1 f2 s1 s2 k n w = (st, w')"
  shows "\<exists>ev. events w' = events w @ [ev] \<and> diff_argument_is (''-u'' @ str_int k) ev
           \<and> (failed ev \<longleftrightarrow> (\<exists>e. st = Raise e))"
proof -
  let ?cmd = "build_diff_command s1 s2 k"
  let ?r = "text_mode (subprocess_run env ?cmd (files w))"
  have ev: "events w' = events w @ [Ran ?cmd ?r]"
    using assms
    by (auto simp: diff_samples_def execute_diff_command_def run_process_def Let_def
        split: proc_outcome.splits if_splits sum.splits)
  have "failed (Ran ?cmd ?r) \<longleftrightarrow> (\<exists>e. st = Raise e)"
  proof (cases ?r)
    case (Completed rc out err)
    with assms show ?thesis
      by (auto simp: diff_samples_def execute_diff_command_def run_process_def Let_def
          process_diff_result_def DIFF_DIFFERENT_CODE_def DIFF_SUCCESS_CODE_def failed_diff
          simp del: failed.simps(3) split: if_splits)
  next
    case TimedOut
    with assms show ?thesis
      by (auto simp: diff_samples_def execute_diff_command_def run_process_def Let_def)
  next
    case (SpawnFailed m)
    with assms show ?thesis
      by (auto simp: diff_samples_def execute_diff_command_def run_process_def Let_def)
  qed
  with ev diff_command_argument [of k s1 s2 ?r] show ?thesis by blast
qed

lemma sample_attempt_events:
  assumes "sample_attempt env f1 f2 k n w = (st, w')"
  shows "\<exists>evs. events w' = events w @ evs
           \<and> list_all (diff_argument_is (''-u'' @ str_int k)) evs
           \<and> clean_abort evs \<and> (list_ex failed evs \<longleftrightarrow> (\<exists>e. st = Raise e))"
proof -
  let ?u = "''-u'' @ str_int k"
  obtain r1 w1 where c1: "create_sample_file env f1 n ''_1'' w = (r1, w1)"
    by (cases "create_sample_file env f1 n ''_1'' w") auto
  from create_sample_file_events [OF c1, of ?u] obtain e1 where
    e1: "events w1 = events w @ e1" "list_all (diff_argument_is ?u) e1" "clean_abort e1"
      "list_ex failed e1 \<longleftrightarrow> isl r1"
    by blast
  show ?thesis
  proof (cases r1)
    case (Inl e)
    with assms c1 have "st = Raise e" "w' = w1" by (auto simp: sample_attempt_def)
    with e1 Inl show ?thesis by auto
  next
    case (Inr s1)
    obtain r2 w2 where c2: "create_sample_file env f2 n ''_2'' w1 = (r2, w2)"
      by (cases "create_sample_file env f2 n ''_2'' w1") auto
    from create_sample_file_events [OF c2, of ?u] obtain e2 where
      e2: "events w2 = events w1 @ e2" "list_all (diff_argument_is ?u) e2" "clean_abort e2"
        "list_ex failed e2 \<longleftrightarrow> isl r2"
      by blast
    have nf1: "\<not> list_ex failed e1" using e1(4) Inr by simp
    show ?thesis
    proof (cases r2)
      case (Inl e)
      with assms c1 c2 Inr have "st = Raise e" "w' = w2" by (auto simp: sample_attempt_def)
      moreover have "events w2 = events w @ (e1 @ e2)" using e1(1) e2(1) by simp
      moreover have "clean_abort (e1 @ e2)" using nf1 e2(3) by (simp add: clean_abort_no_failure)
      moreover have "list_ex failed (e1 @ e2)" using e2(4) Inl by simp
      moreover have "list_all (diff_argument_is ?u) (e1 @ e2)" using e1(2) e2(2) by simp
      ultimately show ?thesis by blast
    next
      case (Inr s2)
      obtain w3 where ds: "diff_samples env f1 f2 s1 s2 k n w2 = (st, w3)"
          and w': "w' = cleanup_sample_files env [s1, s2] w3"
        using assms c1 c2 \<open>r1 = Inr s1\<close> Inr
        by (auto simp: sample_attempt_def split: prod.splits)
      from diff_samples_events [OF ds] obtain ev where
        ev: "events w3 = events w2 @ [ev]" "diff_argument_is ?u ev"
          "failed ev \<longleftrightarrow> (\<exists>e. st = Raise e)"
        by blast
      from cleanup_events [of env "[s1, s2]" w3] obtain e4 where
        e4: "events w' = events w3 @ e4" "list_all is_removal e4"
        unfolding w' by blast
      have nf2: "\<not> list_ex failed e2" using e2(4) Inr by simp
      have all: "events w' = events w @ (e1 @ e2 @ ev # e4)"
        using e1(1) e2(1) ev(1) e4(1) by simp
      have arg: "list_all (diff_argument_is ?u) (e1 @ e2 @ ev # e4)"
        using e1(2) e2(2) ev(2) removals_any_argument [OF e4(2), of ?u] by simp
      have "clean_abort (ev # e4)"
        using e4(2) by (simp add: clean_abort_removals)
      then have ca: "clean_abort (e1 @ e2 @ ev # e4)"
        using nf1 nf2 by (simp add: clean_abort_no_failure)
      have "list_ex failed (e1 @ e2 @ ev # e4) \<longleftrightarrow> failed ev"
        using nf1 nf2 removals_not_failed [OF e4(2)] by simp
      with ev(3) have fl: "list_ex failed (e1 @ e2 @ ev # e4) \<longleftrightarrow> (\<exists>e. st = Raise e)"
        by simp
      from all arg ca fl show ?thesis by blast
    qed
  qed
qed

lemma smart_diff_loop_events:
  "smart_diff_loop env f1 f2 k sizes w = (r, w') \<Longrightarrow>
   \<exists>evs. events w' = events w @ evs
     \<and> list_all (diff_argument_is (''-u'' @ str_int k)) evs
     \<and> clean_abort evs \<and> (list_ex failed evs \<longleftrightarrow> isl r)"
proof (induction sizes arbitrary: w)
  case Nil
  then show ?case by auto
next
  case (Cons n sizes)
  let ?u = "''-u'' @ str_int k"
  obtain st w1 where a: "sample_attempt env f1 f2 k n w = (st, w1)"
    by (cases "sample_attempt env f1 f2 k n w") auto
  from sample_attempt_events [OF a] obtain e1 where
    e1: "events w1 = events w @ e1" "list_all (diff_argument_is ?u) e1" "clean_abort e1"
      "list_ex failed e1 \<longleftrightarrow> (\<exists>e. st = Raise e)"
    by blast
  show ?case
  proof (cases st)
    case (Raise e)
    with Cons.prems a have "r = Inl e" "w' = w1" by auto
    with e1 Raise show ?thesis by auto
  next
    case (Return d)
    with Cons.prems a have "r = Inr d" "w' = w1" by auto
    with e1 Return show ?thesis by auto
  next
    case Next
    with Cons.prems a have "smart_diff_loop env f1 f2 k sizes w1 = (r, w')" by simp
    from Cons.IH [OF this] obtain e2 where
      e2: "events w' = events w1 @ e2" "list_all (diff_argument_is ?u) e2" "clean_abort e2"
        "list_ex failed e2 \<longleftrightarrow> isl r"
      by blast
    have nf: "\<not> list_ex failed e1" using e1(4) Next by simp
    have "events w' = events w @ (e1 @ e2)" using e1(1) e2(1) by simp
    moreover have "list_all (diff_argument_is ?u) (e1 @ e2)" using e1(2) e2(2) by simp
    moreover have "clean_abort (e1 @ e2)" using nf e2(3) by (simp add: clean_abort_no_failure)
    moreover have "list_ex failed (e1 @ e2) \<longleftrightarrow> isl r" using nf e2(4) by simp
    ultimately show ?thesis by blast
  qed
qed

lemma run_diff_command_events:
  assumes "run_diff_command env f1 f2 d w = (r, w')"
  shows "\<exists>evs. events w' = events w @ evs
           \<and> list_all (diff_argument_is (''-u'' @ str_int (min d 10))) evs
           \<and> clean_abort evs \<and> (list_ex failed evs \<longleftrightarrow> isl r)"
proof -
  obtain r0 w0 where s: "smart_diff_loop env f1 f2 (min d 10) INCREMENTAL_SAMPLE_SIZES w = (r0, w0)"
    by (cases "smart_diff_loop env f1 f2 (min d 10) INCREMENTAL_SAMPLE_SIZES w") auto
  have "w' = w0 \<and> (isl r \<longleftrightarrow> isl r0)"
    using assms s
    by (auto simp: run_diff_command_def smart_diff_with_sampling_def MAX_DIFF_OUTPUT_LINES_def
        Let_def split: sum.splits exn.splits)
  with smart_diff_loop_events [OF s] show ?thesis by auto
qed

subsection \<open>The two operations\<close>

lemma retrieve_table_data_result:
  "\<exists>w'. retrieve_table_data env r1 r2 w =
          (case get_table_data env (table r1) (catalog r1) (schema r1) of
             Inl e \<Rightarrow> Inl e
           | Inr p1 \<Rightarrow>
               (case get_table_data env (table r2) (catalog r2) (schema r2) of
                  Inl e \<Rightarrow> Inl e
                | Inr p2 \<Rightarrow> Inr (p1, p2)), w')
        \<and> events w' = events w \<and> files w' = files w"
  by (auto simp: retrieve_table_data_def ctx_info_def Let_def split: sum.splits)

lemma compare_tables_try_events:
  assumes "compare_tables_try env r1 r2 d w = (r, w')"
  shows "\<exists>evs. events w' = events w @ evs
           \<and> list_all (diff_argument_is (''-u'' @ str_int (min d 10))) evs
           \<and> clean_abort evs \<and> (list_ex failed evs \<longrightarrow> isl r)"
proof -
  obtain rr w1 where rt: "retrieve_table_data env r1 r2 w = (rr, w1)" and e1: "events w1 = events w"
    using retrieve_table_data_result [of env r1 r2 w] by blast
  show ?thesis
  proof (cases rr)
    case (Inl e)
    with assms rt e1 have "events w' = events w @ []"
      by (auto simp: compare_tables_try_def)
    then show ?thesis by (intro exI [of _ "[]"]) simp
  next
    case (Inr paths)
    obtain p1 p2 where paths: "paths = (p1, p2)" by (cases paths)
    let ?w2 = "ctx_info ''Running diff comparison...'' w1"
    obtain rd w3 where rd: "run_diff_command env p1 p2 d ?w2 = (rd, w3)"
      by (cases "run_diff_command env p1 p2 d ?w2") auto
    from run_diff_command_events [OF rd] obtain evs where
      evs: "events w3 = events ?w2 @ evs"
        "list_all (diff_argument_is (''-u'' @ str_int (min d 10))) evs"
        "clean_abort evs" "list_ex failed evs \<longleftrightarrow> isl rd"
      by blast
    have "events w' = events w3 \<and> (isl rd \<longrightarrow> isl r)"
      using assms rt Inr paths rd
      by (auto simp: compare_tables_try_def ctx_info_def split: sum.splits)
    moreover have "events ?w2 = events w" using e1 by (simp add: ctx_info_def)
    ultimately show ?thesis using evs by auto
  qed
qed

lemma compare_tables_catches:
  assumes "compare_tables_try env r1 r2 d
             (ctx_info (''Comparing tables: '' @ table r1 @ '' vs '' @ table r2) w) = (r, w1)"
  shows "\<exists>rep w'. compare_tables env r1 r2 d w = (Inr rep, w') \<and> events w' = events w1
           \<and> (\<forall>e. r = Inl e \<longrightarrow> rep = ErrorResult (str_exn env e))
           \<and> (\<forall>c. r = Inr c \<longrightarrow> rep = Success c)"
proof (cases r)
  case (Inl e)
  with assms show ?thesis
    by (cases e)
       (auto simp: compare_tables_def handle_databricks_error_def handle_unexpected_error_def
          ctx_error_def str_exn_def Let_def)
next
  case (Inr c)
  with assms show ?thesis by (auto simp: compare_tables_def)
qed

lemma compare_tables_try_unavailable:
  assumes "compare_tables_try env r1 r2 d w = (r, w')"
  shows "(\<forall>e. get_table_data env (table r1) (catalog r1) (schema r1) = Inl e \<longrightarrow> r = Inl e) \<and>
         (\<forall>p e. get_table_data env (table r1) (catalog r1) (schema r1) = Inr p \<longrightarrow>
                 get_table_data env (table r2) (catalog r2) (schema r2) = Inl e \<longrightarrow> r = Inl e)"
  using assms retrieve_table_data_result [of env r1 r2 w]
  by (auto simp: compare_tables_try_def)

lemma quick_compare_tables_catches:
  "\<exists>rep w'. quick_compare_tables env r1 r2 w = (Inr rep, w')
     \<and> (\<forall>e. get_table_info env (table r1) (catalog r1) (schema r1) = Inl e
            \<longrightarrow> rep = ErrorResult (str_exn env e))
     \<and> (\<forall>i e. get_table_info env (table r1) (catalog r1) (schema r1) = Inr i \<longrightarrow>
               get_table_info env (table r2) (catalog r2) (schema r2) = Inl e
            \<longrightarrow> rep = ErrorResult (str_exn env e))"
proof (cases "get_table_info env (table r1) (catalog r1) (schema r1)")
  case (Inl e)
  then show ?thesis
    by (cases e)
       (auto simp: quick_compare_tables_def quick_compare_tables_try_def get_both_table_infos_def
          handle_databricks_error_def handle_quick_comparison_error_def str_exn_def Let_def)
next
  case (Inr i1)
  show ?thesis
  proof (cases "get_table_info env (table r2) (catalog r2) (schema r2)")
    case (Inl e)
    with Inr show ?thesis
      by (cases e)
         (auto simp: quick_compare_tables_def quick_compare_tables_try_def get_both_table_infos_def
            handle_databricks_error_def handle_quick_comparison_error_def str_exn_def Let_def)
  next
    case (Inr i2)
    with \<open>get_table_info env (table r1) (catalog r1) (schema r1) = Inr i1\<close> show ?thesis
      by (auto simp: quick_compare_tables_def quick_compare_tables_try_def
          get_both_table_infos_def Let_def)
  qed
qed

text \<open>
  C4. Neither operation lets an exception out: each returns a result, whatever the
  collaborators do. In \<open>compare_tables\<close>, if the service fails to deliver either data
  file, or if any external action of the call failed (a \<^verbatim>\<open>head\<close> with a status other than
  0 or a sample file that could not be written, a process that timed out or did not
  start, a \<^verbatim>\<open>diff\<close> with an exit status other than 0 and 1), the result is an error
  result with a message, hence never an identical result; and after the first failed
  action only removals of sample files follow, so no larger sample is tried. In
  \<open>quick_compare_tables\<close>, if the service fails to deliver either table summary, the
  result is an error result with the text of the exception.
\<close>

theorem failures_become_error_results:
  "(\<exists>rep w' evs.
      compare_tables env r1 r2 d w = (Inr rep, w')
      \<and> events w' = events w @ evs
      \<and> clean_abort evs
      \<and> (list_ex failed evs \<longrightarrow> (\<exists>m. rep = ErrorResult m))
      \<and> (\<forall>e. get_table_data env (table r1) (catalog r1) (schema r1) = Inl e
             \<longrightarrow> rep = ErrorResult (str_exn env e))
      \<and> (\<forall>p e. get_table_data env (table r1) (catalog r1) (schema r1) = Inr p \<longrightarrow>
                get_table_data env (table r2) (catalog r2) (schema r2) = Inl e
             \<longrightarrow> rep = ErrorResult (str_exn env e))) \<and>
   (\<exists>rep w'.
      quick_compare_tables env r1 r2 w = (Inr rep, w')
      \<and> (\<forall>e. get_table_info env (table r1) (catalog r1) (schema r1) = Inl e
             \<longrightarrow> rep = ErrorResult (str_exn env e))
      \<and> (\<forall>i e. get_table_info env (table r1) (catalog r1) (schema r1) = Inr i \<longrightarrow>
                get_table_info env (table r2) (catalog r2) (schema r2) = Inl e
             \<longrightarrow> rep = ErrorResult (str_exn env e)))"
proof (rule conjI)
  let ?w0 = "ctx_info (''Comparing tables: '' @ table r1 @ '' vs '' @ table r2) w"
  obtain r w1 where t: "compare_tables_try env r1 r2 d ?w0 = (r, w1)"
    by (cases "compare_tables_try env r1 r2 d ?w0") auto
  from compare_tables_try_events [OF t] obtain evs where
    evs: "events w1 = events ?w0 @ evs" "clean_abort evs" "list_ex failed evs \<longrightarrow> isl r"
    by blast
  from compare_tables_catches [OF t] obtain rep w' where
    c: "compare_tables env r1 r2 d w = (Inr rep, w')" "events w' = events w1"
      "\<forall>e. r = Inl e \<longrightarrow> rep = ErrorResult (str_exn env e)"
    by blast
  note u = compare_tables_try_unavailable [OF t]
  have e: "events w' = events w @ evs" using c(2) evs(1) by (simp add: ctx_info_def)
  have f: "list_ex failed evs \<longrightarrow> (\<exists>m. rep = ErrorResult m)"
    using evs(3) c(3) by (cases r) auto
  have g: "\<forall>e. get_table_data env (table r1) (catalog r1) (schema r1) = Inl e
             \<longrightarrow> rep = ErrorResult (str_exn env e)"
    using u c(3) by blast
  have h: "\<forall>p e. get_table_data env (table r1) (catalog r1) (schema r1) = Inr p \<longrightarrow>
                get_table_data env (table r2) (catalog r2) (schema r2) = Inl e
             \<longrightarrow> rep = ErrorResult (str_exn env e)"
    using u c(3) by blast
  from c(1) e evs(2) f g h
  show "\<exists>rep w' evs.
      compare_tables env r1 r2 d w = (Inr rep, w')
      \<and> events w' = events w @ evs
      \<and> clean_abort evs
      \<and> (list_ex failed evs \<longrightarrow> (\<exists>m. rep = ErrorResult m))
      \<and> (\<forall>e. get_table_data env (table r1) (catalog r1) (schema r1) = Inl e
             \<longrightarrow> rep = ErrorResult (str_exn env e))
      \<and> (\<forall>p e. get_table_data env (table r1) (catalog r1) (schema r1) = Inr p \<longrightarrow>
                get_table_data env (table r2) (catalog r2) (schema r2) = Inl e
             \<longrightarrow> rep = ErrorResult (str_exn env e))"
    by blast
next
  show "\<exists>rep w'.
      quick_compare_tables env r1 r2 w = (Inr rep, w')
      \<and> (\<forall>e. get_table_info env (table r1) (catalog r1) (schema r1) = Inl e
             \<longrightarrow> rep = ErrorResult (str_exn env e))
      \<and> (\<forall>i e. get_table_info env (table r1) (catalog r1) (schema r1) = Inr i \<longrightarrow>
                get_table_info env (table r2) (catalog r2) (schema r2) = Inl e
             \<longrightarrow> rep = ErrorResult (str_exn env e))"
    by (rule quick_compare_tables_catches)
qed

theorem failures_become_error_results_witness:
  "list_ex failed (events (snd (compare_tables trouble_env ref1 ref2 10 world_same))) \<and>
   (\<exists>m. fst (compare_tables trouble_env ref1 ref2 10 world_same) = Inr (ErrorResult m)) \<and>
   fst (compare_tables unavailable_env ref1 ref2 10 world_same)
     = Inr (ErrorResult ''Table not found'') \<and>
   fst (quick_compare_tables unavailable_env ref1 ref2 world_same)
     = Inr (ErrorResult ''Table not found'')"
proof -
  have ev: "list_ex failed (events (snd (compare_tables trouble_env ref1 ref2 10 world_same)))"
    by code_simp
  have e0: "events world_same = []" by (simp add: world_same_def)
  from failures_become_error_results [of trouble_env ref1 ref2 10 world_same, THEN conjunct1]
  obtain rep w' evs where
    c: "compare_tables trouble_env ref1 ref2 10 world_same = (Inr rep, w')"
      and e: "events w' = events world_same @ evs"
      and f: "list_ex failed evs \<longrightarrow> (\<exists>m. rep = ErrorResult m)"
    by blast
  have a: "\<exists>m. fst (compare_tables trouble_env ref1 ref2 10 world_same) = Inr (ErrorResult m)"
    using ev c e f e0 by auto
  have d1: "get_table_data unavailable_env (table ref1) (catalog ref1) (schema ref1)
              = Inl (DatabricksServiceError ''Table not found'')"
    by (simp add: unavailable_env_def)
  have d2: "get_table_info unavailable_env (table ref1) (catalog ref1) (schema ref1)
              = Inl (DatabricksServiceError ''Table not found'')"
    by (simp add: unavailable_env_def)
  have s: "str_exn unavailable_env (DatabricksServiceError ''Table not found'') = ''Table not found''"
    by (simp add: str_exn_def)
  from failures_become_error_results [of unavailable_env ref1 ref2 10 world_same, THEN conjunct1]
  obtain rep1 w1 where
    c1: "compare_tables unavailable_env ref1 ref2 10 world_same = (Inr rep1, w1)"
      and g1: "\<forall>e. get_table_data unavailable_env (table ref1) (catalog ref1) (schema ref1) = Inl e
                 \<longrightarrow> rep1 = ErrorResult (str_exn unavailable_env e)"
    by blast
  from g1 d1
  have "rep1 = ErrorResult (str_exn unavailable_env (DatabricksServiceError ''Table not found''))"
    by blast
  then have "rep1 = ErrorResult ''Table not found''" by (simp only: s)
  with c1 have b: "fst (compare_tables unavailable_env ref1 ref2 10 world_same)
             = Inr (ErrorResult ''Table not found'')"
    by simp
  from failures_become_error_results [of unavailable_env ref1 ref2 10 world_same, THEN conjunct2]
  obtain rep2 w2 where
    c2: "quick_compare_tables unavailable_env ref1 ref2 world_same = (Inr rep2, w2)"
      and g2: "\<forall>e. get_table_info unavailable_env (table ref1) (catalog ref1) (schema ref1) = Inl e
                 \<longrightarrow> rep2 = ErrorResult (str_exn unavailable_env e)"
    by blast
  from g2 d2
  have "rep2 = ErrorResult (str_exn unavailable_env (DatabricksServiceError ''Table not found''))"
    by blast
  then have "rep2 = ErrorResult ''Table not found''" by (simp only: s)
  with c2 have q: "fst (quick_compare_tables unavailable_env ref1 ref2 world_same)
             = Inr (ErrorResult ''Table not found'')"
    by simp
  from ev a b q show ?thesis by blast
qed

text \<open>
  C10. Every \<^verbatim>\<open>diff\<close> process that a call of \<open>compare_tables\<close> starts has the argument
  \<^verbatim>\<open>-u\<close> followed by the decimal text of \<open>min diff_lines 10\<close>. So a value of at most 10,
  zero and the negative ones included, reaches \<^verbatim>\<open>diff\<close> as it is: there is a cap at 10
  and neither a lower bound nor a default.
\<close>

theorem diff_context_capped_above_only:
  "\<exists>rep w' evs.
     compare_tables env r1 r2 diff_lines w = (Inr rep, w')
     \<and> events w' = events w @ evs
     \<and> list_all (diff_argument_is (''-u'' @ str_int (min diff_lines 10))) evs
     \<and> (diff_lines \<le> 10 \<longrightarrow> list_all (diff_argument_is (''-u'' @ str_int diff_lines)) evs)"
proof -
  let ?w0 = "ctx_info (''Comparing tables: '' @ table r1 @ '' vs '' @ table r2) w"
  obtain r w1 where t: "compare_tables_try env r1 r2 diff_lines ?w0 = (r, w1)"
    by (cases "compare_tables_try env r1 r2 diff_lines ?w0") auto
  from compare_tables_try_events [OF t] obtain evs where
    evs: "events w1 = events ?w0 @ evs"
      "list_all (diff_argument_is (''-u'' @ str_int (min diff_lines 10))) evs"
    by blast
  from compare_tables_catches [OF t] obtain rep w' where
    c: "compare_tables env r1 r2 diff_lines w = (Inr rep, w')" "events w' = events w1"
    by blast
  have e: "events w' = events w @ evs" using c(2) evs(1) by (simp add: ctx_info_def)
  have "diff_lines \<le> 10 \<longrightarrow> list_all (diff_argument_is (''-u'' @ str_int diff_lines)) evs"
  proof
    assume "diff_lines \<le> 10"
    then have "min diff_lines 10 = diff_lines" by simp
    with evs(2) show "list_all (diff_argument_is (''-u'' @ str_int diff_lines)) evs" by simp
  qed
  with c(1) e evs(2) show ?thesis by blast
qed

theorem diff_context_capped_above_only_witness:
  "(- 3 :: int) \<le> 10 \<and>
   list_all (diff_argument_is ''-u-3'')
     (events (snd (compare_tables demo_env ref1 ref2 (- 3) world_same))) \<and>
   [''diff'', ''-u-3'', ''/tmp/databricks/sample_5_1_table1.csv'',
    ''/tmp/databricks/sample_5_2_table2.csv'']
     \<in> set (ran_commands (events (snd (compare_tables demo_env ref1 ref2 (- 3) world_same))))"
proof -
  have s: "''-u'' @ str_int (- 3) = ''-u-3''"
    by (simp add: str_int_def str_nat_small digit_char_def)
  have e0: "events world_same = []" by (simp add: world_same_def)
  from diff_context_capped_above_only [of demo_env ref1 ref2 "- 3" world_same]
  obtain rep w' evs where
    c: "compare_tables demo_env ref1 ref2 (- 3) world_same = (Inr rep, w')"
      and e: "events w' = events world_same @ evs"
      and a: "(- 3 :: int) \<le> 10 \<longrightarrow> list_all (diff_argument_is (''-u'' @ str_int (- 3))) evs"
    by blast
  have l: "list_all (diff_argument_is ''-u-3'')
             (events (snd (compare_tables demo_env ref1 ref2 (- 3) world_same)))"
    using a unfolding s by (simp add: c e e0)
  have r: "[''diff'', ''-u-3'', ''/tmp/databricks/sample_5_1_table1.csv'',
            ''/tmp/databricks/sample_5_2_table2.csv'']
             \<in> set (ran_commands (events (snd (compare_tables demo_env ref1 ref2 (- 3) world_same))))"
    by code_simp
  from l r show ?thesis by simp
qed

subsection \<open>Sample files that stay behind\<close>

text \<open>
  C5. The two sample files are created before the \<^verbatim>\<open>try\<close> block whose \<^verbatim>\<open>finally\<close>
  clause removes them. When the second one cannot be created, here because the second
  data file is not readable, the call returns an error result and the first sample file
  stays on disk: nothing removes it.
\<close>

theorem first_sample_file_left_behind:
  "fst (compare_tables demo_env ref1 ref2 10 world_missing) =
     Inr (ErrorResult ''Error running diff: Failed to create sample file: head: cannot open /tmp/databricks/table2.csv'') \<and>
   files world_missing ''/tmp/databricks/sample_5_1_table1.csv'' = None \<and>
   files (snd (compare_tables demo_env ref1 ref2 10 world_missing))
     ''/tmp/databricks/sample_5_1_table1.csv''
     = Some ''id,name,value\<newline>1,test,100\<newline>2,example,200\<newline>'' \<and>
   \<not> list_ex is_removal (events (snd (compare_tables demo_env ref1 ref2 10 world_missing)))"
  by code_simp

text \<open>
  The same happens with every file in place when the second table is named like a sample
  file of the first: the 5-line sample of \<^verbatim>\<open>t\<close> overwrites the data file of
  \<^verbatim>\<open>sample_5_1_t\<close>, the two samples are equal, the cleanup removes that data file, and
  at 25 lines the second sample cannot be created; the 25-line sample of \<^verbatim>\<open>t\<close> stays.
  This is why the statements about the sampler ask that no sample path is the path of
  the other data file.
\<close>

lemma sample_path_collision:
  "fst (compare_tables demo_env ref_t ref_sample 10 world_collision) =
     Inr (ErrorResult ''Error running diff: Failed to create sample file: head: cannot open /tmp/databricks/sample_5_1_t.csv'') \<and>
   files (snd (compare_tables demo_env ref_t ref_sample 10 world_collision))
     ''/tmp/databricks/sample_5_1_t.csv'' = None \<and>
   files (snd (compare_tables demo_env ref_t ref_sample 10 world_collision))
     ''/tmp/databricks/sample_25_1_t.csv'' = Some ''id\<newline>1\<newline>''"
  by code_simp

subsection \<open>Names of the sample files\<close>









end
